theory Spec2Isabelle
  imports Complex_Main
begin

section \<open>JavaScript numbers\<close>

text \<open>
  The racing-weather derivation of \<^verbatim>\<open>src/app/api/peek/route.ts\<close> computes on JavaScript
  numbers. A number is modelled as a real, or one of the three special values of IEEE-754
  that the arithmetic of the code can produce: \<open>Infinity\<close>, \<open>-Infinity\<close> and \<open>NaN\<close>.
  The special values follow the rules of ECMAScript (a division by zero gives an infinity
  or \<open>NaN\<close>, \<open>NaN\<close> propagates and compares false with everything, \<open>Math.pow\<close> of a
  negative base and a fractional exponent is \<open>NaN\<close>). Arithmetic on finite values is
  exact: rounding to 53 bits, overflow to an infinity and the sign of zero are not
  modelled.
\<close>

datatype jsnum = Fin real | PInf | NInf | NaN

text \<open>The infinity with the sign of \<open>s\<close>; \<open>NaN\<close> when \<open>s\<close> is zero.\<close>

definition inf_of_sign :: "real \<Rightarrow> jsnum" where
  "inf_of_sign s = (if 0 < s then PInf else if s < 0 then NInf else NaN)"

fun js_neg :: "jsnum \<Rightarrow> jsnum" where
  "js_neg (Fin a) = Fin (- a)"
| "js_neg PInf = NInf"
| "js_neg NInf = PInf"
| "js_neg NaN = NaN"

fun js_add :: "jsnum \<Rightarrow> jsnum \<Rightarrow> jsnum" where
  "js_add (Fin a) (Fin b) = Fin (a + b)"
| "js_add (Fin a) PInf = PInf"
| "js_add (Fin a) NInf = NInf"
| "js_add PInf (Fin b) = PInf"
| "js_add PInf PInf = PInf"
| "js_add NInf (Fin b) = NInf"
| "js_add NInf NInf = NInf"
| "js_add _ _ = NaN"

definition js_sub :: "jsnum \<Rightarrow> jsnum \<Rightarrow> jsnum" where
  "js_sub a b = js_add a (js_neg b)"

fun js_mul :: "jsnum \<Rightarrow> jsnum \<Rightarrow> jsnum" where
  "js_mul (Fin a) (Fin b) = Fin (a * b)"
| "js_mul (Fin a) PInf = inf_of_sign a"
| "js_mul (Fin a) NInf = inf_of_sign (- a)"
| "js_mul PInf (Fin b) = inf_of_sign b"
| "js_mul NInf (Fin b) = inf_of_sign (- b)"
| "js_mul PInf PInf = PInf"
| "js_mul PInf NInf = NInf"
| "js_mul NInf PInf = NInf"
| "js_mul NInf NInf = PInf"
| "js_mul _ _ = NaN"

text \<open>
  Division. A finite nonzero value over zero is the infinity of the dividend's sign
  (the zero divisor counts as \<open>+0\<close>), and \<open>0 / 0\<close> is \<open>NaN\<close>.
\<close>

fun js_div :: "jsnum \<Rightarrow> jsnum \<Rightarrow> jsnum" where
  "js_div (Fin a) (Fin b) = (if b = 0 then inf_of_sign a else Fin (a / b))"
| "js_div (Fin a) PInf = Fin 0"
| "js_div (Fin a) NInf = Fin 0"
| "js_div PInf (Fin b) = (if 0 \<le> b then PInf else NInf)"
| "js_div NInf (Fin b) = (if 0 \<le> b then NInf else PInf)"
| "js_div _ _ = NaN"

text \<open>The comparison \<open>a > b\<close>: false as soon as one side is \<open>NaN\<close>.\<close>

fun js_gt :: "jsnum \<Rightarrow> jsnum \<Rightarrow> bool" where
  "js_gt (Fin a) (Fin b) = (b < a)"
| "js_gt (Fin a) NInf = True"
| "js_gt PInf (Fin b) = True"
| "js_gt PInf NInf = True"
| "js_gt _ _ = False"


fun js_eq :: "jsnum \<Rightarrow> jsnum \<Rightarrow> bool" where
  "js_eq (Fin a) (Fin b) = (a = b)"
| "js_eq PInf PInf = True"
| "js_eq NInf NInf = True"
| "js_eq _ _ = False"

definition is_int :: "real \<Rightarrow> bool" where
  "is_int y = (of_int \<lfloor>y\<rfloor> = y)"

definition is_odd_int :: "real \<Rightarrow> bool" where
  "is_odd_int y = (is_int y \<and> odd \<lfloor>y\<rfloor>)"

text \<open>An integral power of a nonzero real.\<close>

definition int_power :: "real \<Rightarrow> real \<Rightarrow> real" where
  "int_power x y = (if 0 \<le> y then x ^ nat \<lfloor>y\<rfloor> else 1 / x ^ nat \<lfloor>- y\<rfloor>)"

text \<open>
  \<open>Math.pow(base, exponent)\<close>, by the cases of ECMAScript's \<open>Number::exponentiate\<close>.
\<close>

fun js_pow :: "jsnum \<Rightarrow> jsnum \<Rightarrow> jsnum" where
  "js_pow _ NaN = NaN"
| "js_pow b (Fin y) =
     (if y = 0 then Fin 1
      else (case b of
        NaN \<Rightarrow> NaN
      | PInf \<Rightarrow> (if 0 < y then PInf else Fin 0)
      | NInf \<Rightarrow> (if 0 < y then (if is_odd_int y then NInf else PInf) else Fin 0)
      | Fin x \<Rightarrow>
          (if x = 0 then (if 0 < y then Fin 0 else PInf)
           else if is_int y then Fin (int_power x y)
           else if 0 < x then Fin (x powr y)
           else NaN)))"
| "js_pow b PInf =
     (case b of
        NaN \<Rightarrow> NaN
      | Fin x \<Rightarrow> (if 1 < \<bar>x\<bar> then PInf else if \<bar>x\<bar> = 1 then NaN else Fin 0)
      | _ \<Rightarrow> PInf)"
| "js_pow b NInf =
     (case b of
        NaN \<Rightarrow> NaN
      | Fin x \<Rightarrow> (if 1 < \<bar>x\<bar> then Fin 0 else if \<bar>x\<bar> = 1 then NaN else PInf)
      | _ \<Rightarrow> Fin 0)"


text \<open>\<open>near tol a r\<close>: the number \<open>a\<close> is finite and at most \<open>tol\<close> away from \<open>r\<close>.\<close>

definition near :: "real \<Rightarrow> jsnum \<Rightarrow> real \<Rightarrow> bool" where
  "near tol a r = (case a of Fin v \<Rightarrow> \<bar>v - r\<bar> \<le> tol | _ \<Rightarrow> False)"

section \<open>The racing-weather calculations\<close>

text \<open>
  The type \<open>Inputs\<close> and the type \<open>RawOutput\<close>, which repeats the three fields of
  \<open>Inputs\<close> and adds the derived ones.
\<close>

record Inputs =
  tempF :: jsnum
  humidityPct :: jsnum
  absPressureInHg :: jsnum

record RawOutput = Inputs +
  pdValue :: jsnum
  vaporPressureInHg :: jsnum
  dewPointF :: jsnum
  humidityGrains :: jsnum
  adrPct :: jsnum
  densityAltFt :: jsnum
  tf :: jsnum
  hf :: jsnum
  bf :: jsnum
  correction :: jsnum

subsection \<open>The polynomial for the saturation vapor pressure\<close>

definition pdValueInHg :: "jsnum \<Rightarrow> jsnum" where
  "pdValueInHg t =
     js_sub
       (js_add
          (js_sub (js_mul (Fin 0.000002923426) (js_pow t (Fin 3)))
                  (js_mul (Fin 0.0002235652) (js_pow t (Fin 2))))
          (js_mul (Fin 0.01366344) t))
       (Fin 0.126149)"

text \<open>The cubic as the specification writes it, over the reals.\<close>

definition pd_poly :: "real \<Rightarrow> real" where
  "pd_poly T = 0.000002923426 * T ^ 3 - 0.0002235652 * T ^ 2 + 0.01366344 * T - 0.126149"

subsection \<open>The dew point, by bisection\<close>

text \<open>One pass through the body of the loop, on the pair \<open>(lo, hi)\<close>.\<close>

definition dp_step :: "jsnum \<Rightarrow> jsnum \<times> jsnum \<Rightarrow> jsnum \<times> jsnum" where
  "dp_step eInHg s =
     (case s of (lo, hi) \<Rightarrow>
        let mid = js_div (js_add lo hi) (Fin 2);
            pd = pdValueInHg mid
        in if js_gt pd eInHg then (lo, mid) else (mid, hi))"

text \<open>The loop \<open>for (let i = 0; i < 80; i++)\<close>, from the counter value \<open>i\<close> on.\<close>

function dp_loop :: "nat \<Rightarrow> jsnum \<Rightarrow> jsnum \<times> jsnum \<Rightarrow> jsnum \<times> jsnum" where
  "dp_loop i eInHg s = (if i < 80 then dp_loop (i + 1) eInHg (dp_step eInHg s) else s)"
  by pat_completeness auto
termination
  by (relation "measure (\<lambda>(i, e, s). 80 - i)") auto

declare dp_loop.simps [simp del]

definition dewPointFFromVaporPressure :: "jsnum \<Rightarrow> jsnum" where
  "dewPointFFromVaporPressure eInHg =
     (case dp_loop 0 eInHg (Fin (- 60), Fin 140) of
        (lo, hi) \<Rightarrow> js_div (js_add lo hi) (Fin 2))"

text \<open>
  The bisection as the specification describes it, over the reals: the bracket
  \<open>[-60, 140]\<close>, 80 halvings, the upper bound replaced when \<open>pd(mid) > e\<close> and the lower
  bound otherwise, and the midpoint of the last bracket as the result.
\<close>

definition spec_step :: "real \<Rightarrow> real \<times> real \<Rightarrow> real \<times> real" where
  "spec_step e s =
     (case s of (lo, hi) \<Rightarrow>
        let mid = (lo + hi) / 2 in if e < pd_poly mid then (lo, mid) else (mid, hi))"

definition spec_dewPoint :: "real \<Rightarrow> real" where
  "spec_dewPoint e = (case (spec_step e ^^ 80) (- 60, 140) of (lo, hi) \<Rightarrow> (lo + hi) / 2)"

subsection \<open>Humidity grains, air density ratio, density altitude, correction\<close>

text \<open>
  The function \<open>humidityGrains\<close> of the source is \<open>humidityGrainsFn\<close> here, the name
  \<open>humidityGrains\<close> being the field of \<open>RawOutput\<close>.
\<close>

definition humidityGrainsFn :: "jsnum \<Rightarrow> jsnum \<Rightarrow> jsnum" where
  "humidityGrainsFn P e =
     (let w = js_mul (Fin 0.62199) (js_div e (js_sub P e)) in js_mul (Fin 7000) w)"

definition fToK :: "jsnum \<Rightarrow> jsnum" where
  "fToK f = js_add (js_mul (js_sub f (Fin 32)) (js_div (Fin 5) (Fin 9))) (Fin 273.15)"

definition P_STD :: jsnum where
  "P_STD = Fin 29.92"

definition T_STD_F :: jsnum where
  "T_STD_F = Fin 60"

definition adrPercent :: "jsnum \<Rightarrow> jsnum \<Rightarrow> jsnum \<Rightarrow> jsnum" where
  "adrPercent t P e =
     (let T = fToK t; Tstd = fToK T_STD_F
      in js_mul (js_div (js_div (js_sub P e) T) (js_div P_STD Tstd)) (Fin 100))"

definition DA_A :: jsnum where
  "DA_A = Fin 0.9877786024779986"

definition DA_B :: jsnum where
  "DA_B = Fin 15.819058349071335"

definition densityAltitudeFt :: "jsnum \<Rightarrow> jsnum" where
  "densityAltitudeFt a =
     (let ratio = js_div a (Fin 100);
          T0 = Fin 288.15;
          L = Fin 0.0065;
          g = Fin 9.80665;
          R = Fin 287.058;
          exp = js_sub (js_div g (js_mul R L)) (Fin 1);
          h_m = js_mul (js_div T0 L) (js_sub (Fin 1) (js_pow ratio (js_div (Fin 1) exp)))
      in js_add (js_mul DA_A (js_mul h_m (Fin 3.28084))) DA_B)"

text \<open>
  \<open>standardCorrection\<close> returns the object \<open>{tf, hf, bf, correction}\<close>, here the
  quadruple of its fields in that order.
\<close>

definition standardCorrection :: "jsnum \<Rightarrow> jsnum \<Rightarrow> jsnum \<Rightarrow> jsnum \<times> jsnum \<times> jsnum \<times> jsnum" where
  "standardCorrection t P e =
     (let tf' = js_pow (js_div (js_add (Fin 459.7) t) (Fin 519.7)) (Fin 0.50317);
          hf' = js_div P (js_sub P e);
          bf' = js_div (Fin 29.92) P
      in (tf', hf', bf', js_mul (js_mul tf' hf') bf'))"

subsection \<open>The main function\<close>

definition computeRacingWeather :: "Inputs \<Rightarrow> RawOutput" where
  "computeRacingWeather x =
     (let t = tempF x; h = humidityPct x; P = absPressureInHg x;
          pdV = pdValueInHg t;
          vp = js_mul pdV (js_div h (Fin 100));
          dewP = dewPointFFromVaporPressure vp;
          grains = humidityGrainsFn P vp;
          adr = adrPercent t P vp;
          densAlt = densityAltitudeFt adr
      in (case standardCorrection t P vp of
            (tf', hf', bf', corr) \<Rightarrow>
              \<lparr>tempF = t, humidityPct = h, absPressureInHg = P,
               pdValue = pdV, vaporPressureInHg = vp,
               dewPointF = dewP, humidityGrains = grains,
               adrPct = adr, densityAltFt = densAlt,
               tf = tf', hf = hf', bf = bf', correction = corr\<rparr>))"

text \<open>The input made of three finite numbers, and the main function on it.\<close>

definition triple :: "real \<Rightarrow> real \<Rightarrow> real \<Rightarrow> Inputs" where
  "triple t h p = \<lparr>tempF = Fin t, humidityPct = Fin h, absPressureInHg = Fin p\<rparr>"

abbreviation racingWeather :: "real \<Rightarrow> real \<Rightarrow> real \<Rightarrow> RawOutput" where
  "racingWeather t h p \<equiv> computeRacingWeather (triple t h p)"



section \<open>Bisection over the reals\<close>

text \<open>
  The loop never leaves the finite numbers, so it is studied through a bisection on
  pairs of reals whose test \<open>g mid\<close> stands for \<open>pd > eInHg\<close>.
\<close>

definition bis_step :: "(real \<Rightarrow> bool) \<Rightarrow> real \<times> real \<Rightarrow> real \<times> real" where
  "bis_step g s =
     (case s of (lo, hi) \<Rightarrow> let mid = (lo + hi) / 2 in if g mid then (lo, mid) else (mid, hi))"

definition bis_result :: "(real \<Rightarrow> bool) \<Rightarrow> real" where
  "bis_result g = (case (bis_step g ^^ 80) (- 60, 140) of (lo, hi) \<Rightarrow> (lo + hi) / 2)"

definition fin_pair :: "real \<times> real \<Rightarrow> jsnum \<times> jsnum" where
  "fin_pair s = (Fin (fst s), Fin (snd s))"

text \<open>The test of the loop at a real midpoint \<open>m\<close>, for the target \<open>e\<close>.\<close>

definition pd_above :: "jsnum \<Rightarrow> real \<Rightarrow> bool" where
  "pd_above e m = js_gt (pdValueInHg (Fin m)) e"


section \<open>The polynomial\<close>

lemma js_pow_3: "js_pow (Fin T) (Fin 3) = Fin (T ^ 3)"
  by (simp add: is_int_def int_power_def)

lemma js_pow_2: "js_pow (Fin T) (Fin 2) = Fin (T ^ 2)"
  by (simp add: is_int_def int_power_def)

lemma pdValueInHg_Fin: "pdValueInHg (Fin T) = Fin (pd_poly T)"
  by (simp add: pdValueInHg_def pd_poly_def js_pow_3 js_pow_2 js_sub_def del: js_pow.simps)


subsection \<open>The value at 80 degrees\<close>



subsection \<open>Monotonicity of the cubic\<close>

lemma pd_poly_diff:
  "10 ^ 12 * (pd_poly b - pd_poly a) =
     (b - a) * (2923426 * (a\<^sup>2 + a * b + b\<^sup>2) - 223565200 * (a + b) + 13663440000)"
  unfolding pd_poly_def by (simp add: field_simps power2_eq_square power3_eq_cube)

lemma secant_squares:
  "12 * 2923426 * (2923426 * (a\<^sup>2 + a * b + b\<^sup>2) - 223565200 * (a + b) + 13663440000) =
     (3 * 2923426 * (a + b) - 2 * 223565200)\<^sup>2 + 3 * 2923426\<^sup>2 * (a - b)\<^sup>2
       + (279403074341120000::real)"
  by (simp add: field_simps power2_eq_square)

lemma secant_pos:
  "0 < 2923426 * (a\<^sup>2 + a * b + b\<^sup>2) - 223565200 * (a + b) + (13663440000::real)"
proof -
  have "0 < (3 * 2923426 * (a + b) - 2 * 223565200)\<^sup>2 + 3 * 2923426\<^sup>2 * (a - b)\<^sup>2
          + (279403074341120000::real)"
    by (intro add_nonneg_pos add_nonneg_nonneg mult_nonneg_nonneg) simp_all
  then have "0 < 12 * 2923426 *
      (2923426 * (a\<^sup>2 + a * b + b\<^sup>2) - 223565200 * (a + b) + (13663440000::real))"
    by (simp only: secant_squares)
  then show ?thesis
    by (simp add: zero_less_mult_iff)
qed

lemma pd_poly_strict_mono:
  assumes "a < b"
  shows "pd_poly a < pd_poly b"
proof -
  from assms have "0 < (b - a) *
      (2923426 * (a\<^sup>2 + a * b + b\<^sup>2) - 223565200 * (a + b) + 13663440000)"
    using secant_pos [of a b] by simp
  then have "0 < 10 ^ 12 * (pd_poly b - pd_poly a)"
    by (simp only: pd_poly_diff)
  then show ?thesis
    by (simp add: zero_less_mult_iff)
qed

lemma pd_poly_less_iff: "pd_poly a < pd_poly b \<longleftrightarrow> a < b"
proof
  assume l: "pd_poly a < pd_poly b"
  show "a < b"
  proof (rule ccontr)
    assume "\<not> a < b"
    then have "b = a \<or> b < a" by auto
    then have "pd_poly b \<le> pd_poly a"
      using pd_poly_strict_mono [of b a] by auto
    with l show False by simp
  qed
next
  assume "a < b"
  then show "pd_poly a < pd_poly b" by (rule pd_poly_strict_mono)
qed






section \<open>The bisection\<close>

subsection \<open>The loop stays on finite numbers\<close>

lemma dp_step_fin: "dp_step e (fin_pair s) = fin_pair (bis_step (pd_above e) s)"
  by (cases s) (simp add: dp_step_def fin_pair_def bis_step_def pd_above_def Let_def)

lemma dp_iter_fin: "(dp_step e ^^ n) (fin_pair s) = fin_pair ((bis_step (pd_above e) ^^ n) s)"
  by (induction n) (simp_all add: dp_step_fin)

lemma dp_loop_funpow: "dp_loop i e s = (dp_step e ^^ (80 - i)) s"
proof (induction i e s rule: dp_loop.induct)
  case (1 i e s)
  show ?case
  proof (cases "i < 80")
    case True
    then have "80 - i = Suc (80 - (i + 1))" by simp
    then have "(dp_step e ^^ (80 - i)) s = (dp_step e ^^ (80 - (i + 1))) (dp_step e s)"
      by (simp only: funpow_Suc_right o_apply)
    with True "1.IH" show ?thesis by (simp add: dp_loop.simps [of i])
  next
    case False
    then show ?thesis by (simp add: dp_loop.simps [of i])
  qed
qed

lemma pd_above_Fin: "pd_above (Fin e) = (\<lambda>m. e < pd_poly m)"
  by (rule ext) (simp add: pd_above_def pdValueInHg_Fin)

lemma spec_step_bis: "spec_step e = bis_step (\<lambda>m. e < pd_poly m)"
  by (rule ext) (simp add: spec_step_def bis_step_def)

lemma spec_dewPoint_bis: "spec_dewPoint e = bis_result (pd_above (Fin e))"
  by (simp add: spec_dewPoint_def bis_result_def spec_step_bis pd_above_Fin)

lemma dewPoint_bis: "dewPointFFromVaporPressure e = Fin (bis_result (pd_above e))"
proof -
  have "dp_loop 0 e (Fin (- 60), Fin 140) = fin_pair ((bis_step (pd_above e) ^^ 80) (- 60, 140))"
    using dp_iter_fin [where e = e and n = 80 and s = "(- 60, 140)"]
    by (simp add: dp_loop_funpow fin_pair_def)
  then show ?thesis
    by (simp add: dewPointFFromVaporPressure_def bis_result_def fin_pair_def split_beta)
qed

subsection \<open>Invariants of the bisection\<close>

lemma bis_step_bounds:
  assumes "l \<le> h"
  shows "l \<le> fst (bis_step g (l, h)) \<and> fst (bis_step g (l, h)) \<le> snd (bis_step g (l, h))
     \<and> snd (bis_step g (l, h)) \<le> h
     \<and> snd (bis_step g (l, h)) - fst (bis_step g (l, h)) = (h - l) / 2"
  using assms by (simp add: bis_step_def Let_def field_simps)

lemma bis_iter_bounds:
  assumes "lo \<le> hi"
  shows "lo \<le> fst ((bis_step g ^^ n) (lo, hi))
     \<and> fst ((bis_step g ^^ n) (lo, hi)) \<le> snd ((bis_step g ^^ n) (lo, hi))
     \<and> snd ((bis_step g ^^ n) (lo, hi)) \<le> hi
     \<and> snd ((bis_step g ^^ n) (lo, hi)) - fst ((bis_step g ^^ n) (lo, hi)) = (hi - lo) / 2 ^ n"
proof (induction n)
  case 0
  with assms show ?case by simp
next
  case (Suc n)
  obtain l h where s: "(bis_step g ^^ n) (lo, hi) = (l, h)" by (cases "(bis_step g ^^ n) (lo, hi)")
  with Suc have lh: "lo \<le> l" "l \<le> h" "h \<le> hi" "h - l = (hi - lo) / 2 ^ n" by simp_all
  from bis_step_bounds[OF lh(2), of g] lh show ?case
    by (simp add: s)
qed

lemma bis_iter_sandwich:
  assumes "lo \<le> T" "T \<le> hi" "\<And>m. g m \<longleftrightarrow> T < m"
  shows "fst ((bis_step g ^^ n) (lo, hi)) \<le> T \<and> T \<le> snd ((bis_step g ^^ n) (lo, hi))"
proof (induction n)
  case 0
  with assms show ?case by simp
next
  case (Suc n)
  obtain l h where s: "(bis_step g ^^ n) (lo, hi) = (l, h)" by (cases "(bis_step g ^^ n) (lo, hi)")
  with Suc have "l \<le> T" "T \<le> h" by simp_all
  then have "fst (bis_step g (l, h)) \<le> T \<and> T \<le> snd (bis_step g (l, h))"
    by (simp add: bis_step_def Let_def assms(3))
  moreover from s have "(bis_step g ^^ Suc n) (lo, hi) = bis_step g (l, h)" by simp
  ultimately show ?case by (simp only:)
qed

lemma bis_iter_lower:
  assumes "lo \<le> hi" "\<And>m. lo \<le> m \<Longrightarrow> g m"
  shows "fst ((bis_step g ^^ n) (lo, hi)) = lo"
proof (induction n)
  case 0
  show ?case by simp
next
  case (Suc n)
  obtain l h where s: "(bis_step g ^^ n) (lo, hi) = (l, h)" by (cases "(bis_step g ^^ n) (lo, hi)")
  with Suc have l: "l = lo" by simp
  from bis_iter_bounds[OF assms(1), where g=g and n=n] s have "lo \<le> h" by simp
  then have "g ((lo + h) / 2)" by (intro assms(2)) simp
  then have "fst (bis_step g (l, h)) = lo" by (simp add: l bis_step_def Let_def)
  moreover from s have "(bis_step g ^^ Suc n) (lo, hi) = bis_step g (l, h)" by simp
  ultimately show ?case by (simp only:)
qed

lemma bis_iter_upper:
  assumes "lo \<le> hi" "\<And>m. m \<le> hi \<Longrightarrow> \<not> g m"
  shows "snd ((bis_step g ^^ n) (lo, hi)) = hi"
proof (induction n)
  case 0
  show ?case by simp
next
  case (Suc n)
  obtain l h where s: "(bis_step g ^^ n) (lo, hi) = (l, h)" by (cases "(bis_step g ^^ n) (lo, hi)")
  with Suc have h: "h = hi" by simp
  from bis_iter_bounds[OF assms(1), where g=g and n=n] s have "l \<le> hi" by simp
  then have "\<not> g ((l + hi) / 2)" by (intro assms(2)) simp
  then have "snd (bis_step g (l, h)) = hi" by (simp add: h bis_step_def Let_def)
  moreover from s have "(bis_step g ^^ Suc n) (lo, hi) = bis_step g (l, h)" by simp
  ultimately show ?case by (simp only:)
qed




subsection \<open>The result of 80 halvings of the bracket\<close>

lemma bis_result_range: "- 60 \<le> bis_result g \<and> bis_result g \<le> 140"
proof -
  obtain l h where s: "(bis_step g ^^ 80) (- 60, 140) = (l, h)"
    by (cases "(bis_step g ^^ 80) (- 60, 140)")
  from bis_iter_bounds [where g = g and n = 80 and lo = "- 60" and hi = 140] s
  have "- 60 \<le> l" "l \<le> h" "h \<le> 140" by simp_all
  then show ?thesis by (simp add: bis_result_def s)
qed

lemma bis_result_root:
  assumes "- 60 \<le> T" "T \<le> 140" "\<And>m. g m \<longleftrightarrow> T < m"
  shows "\<bar>bis_result g - T\<bar> \<le> 100 / 2 ^ 80"
proof -
  obtain l h where s: "(bis_step g ^^ 80) (- 60, 140) = (l, h)"
    by (cases "(bis_step g ^^ 80) (- 60, 140)")
  from bis_iter_bounds [where g = g and n = 80 and lo = "- 60" and hi = 140] s
  have w: "h - l = 200 / 2 ^ 80" by simp
  from bis_iter_sandwich [where g = g and n = 80, OF assms] s
  have "l \<le> T" "T \<le> h" by simp_all
  then have "\<bar>(l + h) / 2 - T\<bar> \<le> (h - l) / 2" by (auto simp add: abs_le_iff field_simps)
  also from w have "(h - l) / 2 = 100 / 2 ^ 80" by simp
  finally show ?thesis by (simp add: bis_result_def s)
qed

lemma bis_result_lower:
  assumes "\<And>m. - 60 \<le> m \<Longrightarrow> g m"
  shows "bis_result g = - 60 + 100 / 2 ^ 80"
proof -
  obtain l h where s: "(bis_step g ^^ 80) (- 60, 140) = (l, h)"
    by (cases "(bis_step g ^^ 80) (- 60, 140)")
  from bis_iter_bounds [where g = g and n = 80 and lo = "- 60" and hi = 140] s
  have w: "h - l = 200 / 2 ^ 80" by simp
  from bis_iter_lower [where g = g and n = 80 and lo = "- 60" and hi = 140] assms s
  have "l = - 60" by simp
  with w have "(l + h) / 2 = - 60 + 100 / 2 ^ 80" by (simp add: field_simps)
  then show ?thesis by (simp add: bis_result_def s)
qed

lemma bis_result_upper:
  assumes "\<And>m. m \<le> 140 \<Longrightarrow> \<not> g m"
  shows "bis_result g = 140 - 100 / 2 ^ 80"
proof -
  obtain l h where s: "(bis_step g ^^ 80) (- 60, 140) = (l, h)"
    by (cases "(bis_step g ^^ 80) (- 60, 140)")
  from bis_iter_bounds [where g = g and n = 80 and lo = "- 60" and hi = 140] s
  have w: "h - l = 200 / 2 ^ 80" by simp
  from bis_iter_upper [where g = g and n = 80 and lo = "- 60" and hi = 140] assms s
  have "h = 140" by simp
  with w have "(l + h) / 2 = 140 - 100 / 2 ^ 80" by (simp add: field_simps)
  then show ?thesis by (simp add: bis_result_def s)
qed



lemma bis_result_below:
  assumes "e < pd_poly (- 60)"
  shows "bis_result (pd_above (Fin e)) = - 60 + 100 / 2 ^ 80"
proof (rule bis_result_lower)
  fix m :: real
  assume "- 60 \<le> m"
  then have "pd_poly (- 60) \<le> pd_poly m"
    using pd_poly_strict_mono [of "- 60" m] by (cases "m = - 60") auto
  with assms show "pd_above (Fin e) m" by (simp add: pd_above_Fin)
qed

lemma bis_result_beyond:
  assumes "pd_poly 140 < e"
  shows "bis_result (pd_above (Fin e)) = 140 - 100 / 2 ^ 80"
proof (rule bis_result_upper)
  fix m :: real
  assume "m \<le> 140"
  then have "pd_poly m \<le> pd_poly 140"
    using pd_poly_strict_mono [of m 140] by (cases "m = 140") auto
  with assms show "\<not> pd_above (Fin e) m" by (simp add: pd_above_Fin)
qed

subsection \<open>The dew point\<close>

text \<open>
  C1: for every real \<open>e\<close>, \<open>dewPointFFromVaporPressure(e)\<close> is the bisection of the
  specification: the loop is its body run exactly 80 times from the bracket \<open>[-60, 140]\<close>,
  the upper bound is replaced by \<open>mid\<close> when \<open>pd(mid) > e\<close> and the lower bound otherwise,
  and the result is the midpoint of the last bracket. For a target below \<open>pd(-60)\<close> the
  result is a number within \<open>200 / 2^80\<close> of \<open>-60\<close>, and for a target pd_above \<open>pd(140)\<close>
  a number within \<open>200 / 2^80\<close> of \<open>140\<close>; no error is signalled.
\<close>

theorem dewPoint_is_fixed_bisection:
  "dp_loop 0 (Fin e) s = (dp_step (Fin e) ^^ 80) s
   \<and> dewPointFFromVaporPressure (Fin e) = Fin (spec_dewPoint e)
   \<and> (js_gt (pdValueInHg (Fin (- 60))) (Fin e)
        \<longrightarrow> near (200 / 2 ^ 80) (dewPointFFromVaporPressure (Fin e)) (- 60))
   \<and> (js_gt (Fin e) (pdValueInHg (Fin 140))
        \<longrightarrow> near (200 / 2 ^ 80) (dewPointFFromVaporPressure (Fin e)) 140)"
proof -
  have loop: "dp_loop 0 (Fin e) s = (dp_step (Fin e) ^^ 80) s"
    by (simp add: dp_loop_funpow)
  have spec: "dewPointFFromVaporPressure (Fin e) = Fin (spec_dewPoint e)"
    by (simp add: dewPoint_bis spec_dewPoint_bis)
  have low: "near (200 / 2 ^ 80) (dewPointFFromVaporPressure (Fin e)) (- 60)"
    if "js_gt (pdValueInHg (Fin (- 60))) (Fin e)"
  proof -
    from that have "e < pd_poly (- 60)" by (simp add: pdValueInHg_Fin)
    then have "bis_result (pd_above (Fin e)) = - 60 + 100 / 2 ^ 80"
      by (rule bis_result_below)
    then show ?thesis by (simp add: dewPoint_bis near_def)
  qed
  have up: "near (200 / 2 ^ 80) (dewPointFFromVaporPressure (Fin e)) 140"
    if "js_gt (Fin e) (pdValueInHg (Fin 140))"
  proof -
    from that have "pd_poly 140 < e" by (simp add: pdValueInHg_Fin)
    then have "bis_result (pd_above (Fin e)) = 140 - 100 / 2 ^ 80"
      by (rule bis_result_beyond)
    then show ?thesis by (simp add: dewPoint_bis near_def)
  qed
  from loop spec low up show ?thesis by blast
qed

theorem dewPoint_is_fixed_bisection_witness:
  "(js_gt (pdValueInHg (Fin (- 60))) (Fin (- 3))
      \<and> near (200 / 2 ^ 80) (dewPointFFromVaporPressure (Fin (- 3))) (- 60))
   \<and> (js_gt (Fin 6) (pdValueInHg (Fin 140))
      \<and> near (200 / 2 ^ 80) (dewPointFFromVaporPressure (Fin 6)) 140)"
proof -
  have h1: "js_gt (pdValueInHg (Fin (- 60))) (Fin (- 3))"
    by (simp add: pdValueInHg_Fin pd_poly_def)
  have h2: "js_gt (Fin 6) (pdValueInHg (Fin 140))"
    by (simp add: pdValueInHg_Fin pd_poly_def)
  from h1 h2 dewPoint_is_fixed_bisection [of "- 3"] dewPoint_is_fixed_bisection [of 6]
  show ?thesis by blast
qed

text \<open>
  C3: for every temperature \<open>T\<close> strictly inside \<open>(-60, 140)\<close>,
  \<open>dewPointFFromVaporPressure(pdValueInHg(T))\<close> differs from \<open>T\<close> by at most \<open>1e-6\<close>.
\<close>

theorem dewPoint_round_trip:
  assumes "- 60 < T" "T < 140"
  shows "near (1 / 10 ^ 6) (dewPointFFromVaporPressure (pdValueInHg (Fin T))) T"
proof -
  have "\<bar>bis_result (pd_above (Fin (pd_poly T))) - T\<bar> \<le> 100 / 2 ^ 80"
    using assms by (intro bis_result_root) (simp_all add: pd_above_Fin pd_poly_less_iff)
  also have "100 / 2 ^ 80 \<le> (1::real) / 10 ^ 6" by simp
  finally show ?thesis by (simp add: pdValueInHg_Fin dewPoint_bis near_def)
qed

theorem dewPoint_round_trip_witness:
  "(- 60::real) < 80 \<and> (80::real) < 140
   \<and> near (1 / 10 ^ 6) (dewPointFFromVaporPressure (pdValueInHg (Fin 80))) 80"
  using dewPoint_round_trip [of 80] by simp

text \<open>
  C9: for every target \<open>e\<close>, a real or \<open>Infinity\<close>, \<open>-Infinity\<close>, \<open>NaN\<close>, the bracket
  after any number \<open>n\<close> of iterations is a pair of finite numbers with
  \<open>-60 \<le> lo \<le> hi \<le> 140\<close>, the loop is 80 such iterations, and the value returned by
  \<open>dewPointFFromVaporPressure(e)\<close> lies in \<open>[-60, 140]\<close>.
\<close>

theorem dewPoint_in_bracket:
  "(\<exists>lo hi. (dp_step e ^^ n) (Fin (- 60), Fin 140) = (Fin lo, Fin hi)
        \<and> - 60 \<le> lo \<and> lo \<le> hi \<and> hi \<le> 140)
   \<and> dp_loop 0 e (Fin (- 60), Fin 140) = (dp_step e ^^ 80) (Fin (- 60), Fin 140)
   \<and> (\<exists>d. dewPointFFromVaporPressure e = Fin d \<and> - 60 \<le> d \<and> d \<le> 140)"
proof -
  obtain l h where s: "(bis_step (pd_above e) ^^ n) (- 60, 140) = (l, h)"
    by (cases "(bis_step (pd_above e) ^^ n) (- 60, 140)")
  from bis_iter_bounds [where g = "pd_above e" and n = n and lo = "- 60" and hi = 140] s
  have b: "- 60 \<le> l" "l \<le> h" "h \<le> 140" by simp_all
  from dp_iter_fin [where e = e and n = n and s = "(- 60, 140)"] s
  have "(dp_step e ^^ n) (Fin (- 60), Fin 140) = (Fin l, Fin h)"
    by (simp add: fin_pair_def)
  with b have 1: "\<exists>lo hi. (dp_step e ^^ n) (Fin (- 60), Fin 140) = (Fin lo, Fin hi)
        \<and> - 60 \<le> lo \<and> lo \<le> hi \<and> hi \<le> 140" by blast
  have 2: "dp_loop 0 e (Fin (- 60), Fin 140) = (dp_step e ^^ 80) (Fin (- 60), Fin 140)"
    by (simp add: dp_loop_funpow)
  have 3: "\<exists>d. dewPointFFromVaporPressure e = Fin d \<and> - 60 \<le> d \<and> d \<le> 140"
    using bis_result_range [of "pd_above e"] by (simp add: dewPoint_bis)
  from 1 2 3 show ?thesis by blast
qed

section \<open>The main function\<close>

lemma computeRacingWeather_fields:
  "tempF (computeRacingWeather x) = tempF x"
  "humidityPct (computeRacingWeather x) = humidityPct x"
  "absPressureInHg (computeRacingWeather x) = absPressureInHg x"
  "pdValue (computeRacingWeather x) = pdValueInHg (tempF x)"
  "vaporPressureInHg (computeRacingWeather x) =
     js_mul (pdValueInHg (tempF x)) (js_div (humidityPct x) (Fin 100))"
  "dewPointF (computeRacingWeather x) =
     dewPointFFromVaporPressure (vaporPressureInHg (computeRacingWeather x))"
  "humidityGrains (computeRacingWeather x) =
     humidityGrainsFn (absPressureInHg x) (vaporPressureInHg (computeRacingWeather x))"
  "adrPct (computeRacingWeather x) =
     adrPercent (tempF x) (absPressureInHg x) (vaporPressureInHg (computeRacingWeather x))"
  "densityAltFt (computeRacingWeather x) = densityAltitudeFt (adrPct (computeRacingWeather x))"
  "tf (computeRacingWeather x) =
     js_pow (js_div (js_add (Fin 459.7) (tempF x)) (Fin 519.7)) (Fin 0.50317)"
  "hf (computeRacingWeather x) =
     js_div (absPressureInHg x)
       (js_sub (absPressureInHg x) (vaporPressureInHg (computeRacingWeather x)))"
  "bf (computeRacingWeather x) = js_div (Fin 29.92) (absPressureInHg x)"
  "correction (computeRacingWeather x) =
     js_mul (js_mul (tf (computeRacingWeather x)) (hf (computeRacingWeather x)))
       (bf (computeRacingWeather x))"
  by (simp_all only: computeRacingWeather_def standardCorrection_def Let_def prod.case
      Inputs.simps RawOutput.simps)

text \<open>
  C10: for every input triple, the bundle returned by \<open>computeRacingWeather\<close> carries
  \<open>tempF\<close>, \<open>humidityPct\<close> and \<open>absPressureInHg\<close> of the input unchanged.
\<close>

theorem computeRacingWeather_echoes_inputs:
  "tempF (computeRacingWeather x) = tempF x
   \<and> humidityPct (computeRacingWeather x) = humidityPct x
   \<and> absPressureInHg (computeRacingWeather x) = absPressureInHg x"
  by (simp only: computeRacingWeather_def standardCorrection_def Let_def prod.case
      Inputs.simps RawOutput.simps)


subsection \<open>The fields on finite inputs\<close>

lemma is_int_frac: "0 < y \<Longrightarrow> y < 1 \<Longrightarrow> \<not> is_int y"
  unfolding is_int_def
proof
  assume a: "0 < y" "y < 1" "of_int \<lfloor>y\<rfloor> = y"
  from a(1,2) have "\<lfloor>y\<rfloor> = 0" by (simp add: floor_eq_iff)
  with a show False by simp
qed

lemma js_pow_frac:
  assumes "0 < y" "y < 1"
  shows "js_pow (Fin x) (Fin y) = (if x < 0 then NaN else Fin (x powr y))"
  using assms is_int_frac [OF assms] by simp



lemma tf_Fin:
  "js_pow (js_div (js_add (Fin 459.7) (Fin t)) (Fin 519.7)) (Fin 0.50317) =
     (if t < - 459.7 then NaN else Fin (((459.7 + t) / 519.7) powr 0.50317))"
proof -
  have "js_pow (Fin ((459.7 + t) / 519.7)) (Fin 0.50317) =
     (if (459.7 + t) / 519.7 < 0 then NaN else Fin (((459.7 + t) / 519.7) powr 0.50317))"
    by (rule js_pow_frac) simp_all
  then show ?thesis by (simp del: js_pow.simps add: field_simps)
qed

lemma fToK_Fin: "fToK (Fin f) = Fin ((f - 32) * (5 / 9) + 273.15)"
  by (simp add: fToK_def js_sub_def)
lemma humidityGrainsFn_Fin:
  "humidityGrainsFn (Fin p) (Fin e) =
     (if p = e then js_mul (Fin 7000) (js_mul (Fin 0.62199) (inf_of_sign p))
      else Fin (7000 * (0.62199 * (e / (p - e)))))"
  by (simp add: humidityGrainsFn_def js_sub_def)

lemma hf_Fin:
  "js_div (Fin p) (js_sub (Fin p) (Fin e)) =
     (if p = e then inf_of_sign p else Fin (p / (p - e)))"
  by (simp add: js_sub_def)

lemma fin_inputs:
  assumes "tempF x = Fin t" "humidityPct x = Fin h" "absPressureInHg x = Fin p"
  shows "pdValue (computeRacingWeather x) = Fin (pd_poly t)"
    and "vaporPressureInHg (computeRacingWeather x) = Fin (pd_poly t * (h / 100))"
    and "dewPointF (computeRacingWeather x) =
           Fin (bis_result (pd_above (Fin (pd_poly t * (h / 100)))))"
    and "humidityGrains (computeRacingWeather x) =
           (if p = pd_poly t * (h / 100) then js_mul (Fin 7000) (js_mul (Fin 0.62199) (inf_of_sign p))
            else Fin (7000 * (0.62199 * (pd_poly t * (h / 100) / (p - pd_poly t * (h / 100))))))"
    and "hf (computeRacingWeather x) =
           (if p = pd_poly t * (h / 100) then inf_of_sign p
            else Fin (p / (p - pd_poly t * (h / 100))))"
    and "bf (computeRacingWeather x) = (if p = 0 then PInf else Fin (29.92 / p))"
    and "tf (computeRacingWeather x) =
           (if t < - 459.7 then NaN else Fin (((459.7 + t) / 519.7) powr 0.50317))"
    and "t \<noteq> - 459.67 \<Longrightarrow> adrPct (computeRacingWeather x) =
           Fin ((p - pd_poly t * (h / 100)) / ((t - 32) * (5 / 9) + 273.15)
                  / (29.92 / ((60 - 32) * (5 / 9) + 273.15)) * 100)"
proof -
  show vp: "vaporPressureInHg (computeRacingWeather x) = Fin (pd_poly t * (h / 100))"
    using assms by (simp add: computeRacingWeather_fields pdValueInHg_Fin)
  show "pdValue (computeRacingWeather x) = Fin (pd_poly t)"
    using assms by (simp add: computeRacingWeather_fields pdValueInHg_Fin)
  show "dewPointF (computeRacingWeather x) =
           Fin (bis_result (pd_above (Fin (pd_poly t * (h / 100)))))"
    by (simp only: computeRacingWeather_fields(6) vp dewPoint_bis)
  show "humidityGrains (computeRacingWeather x) =
           (if p = pd_poly t * (h / 100) then js_mul (Fin 7000) (js_mul (Fin 0.62199) (inf_of_sign p))
            else Fin (7000 * (0.62199 * (pd_poly t * (h / 100) / (p - pd_poly t * (h / 100))))))"
    unfolding computeRacingWeather_fields(7) vp assms by (rule humidityGrainsFn_Fin)
  show "hf (computeRacingWeather x) =
           (if p = pd_poly t * (h / 100) then inf_of_sign p
            else Fin (p / (p - pd_poly t * (h / 100))))"
    unfolding computeRacingWeather_fields(11) vp assms by (rule hf_Fin)
  show "bf (computeRacingWeather x) = (if p = 0 then PInf else Fin (29.92 / p))"
    unfolding computeRacingWeather_fields(12) assms by (simp add: inf_of_sign_def)
  show "tf (computeRacingWeather x) =
           (if t < - 459.7 then NaN else Fin (((459.7 + t) / 519.7) powr 0.50317))"
    unfolding computeRacingWeather_fields(10) assms by (rule tf_Fin)
  show "adrPct (computeRacingWeather x) =
           Fin ((p - pd_poly t * (h / 100)) / ((t - 32) * (5 / 9) + 273.15)
                  / (29.92 / ((60 - 32) * (5 / 9) + 273.15)) * 100)" if "t \<noteq> - 459.67"
  proof -
    from that have "(t - 32) * (5 / 9) + 273.15 \<noteq> 0" by (simp add: field_simps)
    then show ?thesis
      unfolding computeRacingWeather_fields(8) vp assms adrPercent_def Let_def fToK_Fin T_STD_F_def P_STD_def
      by (simp add: js_sub_def)
  qed
qed

lemma triple_fields:
  "tempF (triple t h p) = Fin t"
  "humidityPct (triple t h p) = Fin h"
  "absPressureInHg (triple t h p) = Fin p"
  by (simp_all add: triple_def)

lemmas racingWeather_fields = fin_inputs [OF triple_fields]


section \<open>Monotonicity in the humidity\<close>






section \<open>The pressure equal to the vapor pressure\<close>

text \<open>
  C5 as the specification states it fails when both the pressure and the vapor pressure are
  zero: at \<open>tempF = 80\<close>, \<open>humidityPct = 0\<close>, \<open>absPressureInHg = 0\<close> the division is
  \<open>0 / 0\<close>, and \<open>humidityGrains\<close> and \<open>hf\<close> are \<open>NaN\<close>.
\<close>

theorem pressure_equals_vapor_pressure_NaN:
  "js_eq (absPressureInHg (triple 80 0 0)) (vaporPressureInHg (racingWeather 80 0 0))
   \<and> humidityGrains (racingWeather 80 0 0) = NaN
   \<and> hf (racingWeather 80 0 0) = NaN"
  by (simp add: racingWeather_fields triple_fields pd_poly_def inf_of_sign_def)

text \<open>
  C5, amended: for every input whose finite \<open>absPressureInHg\<close> equals the computed
  \<open>vaporPressureInHg\<close>, \<open>humidityGrains\<close> and \<open>hf\<close> are both \<open>Infinity\<close> when that
  pressure is positive, both \<open>-Infinity\<close> when it is negative, and both \<open>NaN\<close> when it is
  zero.
\<close>

theorem pressure_equals_vapor_pressure:
  assumes "absPressureInHg x = Fin p" "js_eq (Fin p) (vaporPressureInHg (computeRacingWeather x))"
  shows "(0 < p \<longrightarrow> humidityGrains (computeRacingWeather x) = PInf
                 \<and> hf (computeRacingWeather x) = PInf)
     \<and> (p < 0 \<longrightarrow> humidityGrains (computeRacingWeather x) = NInf
                 \<and> hf (computeRacingWeather x) = NInf)
     \<and> (p = 0 \<longrightarrow> humidityGrains (computeRacingWeather x) = NaN
                 \<and> hf (computeRacingWeather x) = NaN)"
proof -
  from assms(2) have vp: "vaporPressureInHg (computeRacingWeather x) = Fin p"
    by (cases "vaporPressureInHg (computeRacingWeather x)") simp_all
  have g: "humidityGrains (computeRacingWeather x) =
      js_mul (Fin 7000) (js_mul (Fin 0.62199) (inf_of_sign p))"
    unfolding computeRacingWeather_fields(7) vp assms(1) by (simp add: humidityGrainsFn_def js_sub_def)
  have h: "hf (computeRacingWeather x) = inf_of_sign p"
    unfolding computeRacingWeather_fields(11) vp assms(1) by (simp add: js_sub_def)
  show ?thesis unfolding g h by (simp add: inf_of_sign_def)
qed

theorem pressure_equals_vapor_pressure_witness:
  "(absPressureInHg (triple 80 100 1.032903032) = Fin 1.032903032
      \<and> js_eq (Fin 1.032903032) (vaporPressureInHg (racingWeather 80 100 1.032903032))
      \<and> (0::real) < 1.032903032
      \<and> humidityGrains (racingWeather 80 100 1.032903032) = PInf
      \<and> hf (racingWeather 80 100 1.032903032) = PInf)
   \<and> (absPressureInHg (triple 0 100 (- 0.126149)) = Fin (- 0.126149)
      \<and> js_eq (Fin (- 0.126149)) (vaporPressureInHg (racingWeather 0 100 (- 0.126149)))
      \<and> (- 0.126149::real) < 0
      \<and> humidityGrains (racingWeather 0 100 (- 0.126149)) = NInf
      \<and> hf (racingWeather 0 100 (- 0.126149)) = NInf)
   \<and> (absPressureInHg (triple 80 0 0) = Fin 0
      \<and> js_eq (Fin 0) (vaporPressureInHg (racingWeather 80 0 0))
      \<and> humidityGrains (racingWeather 80 0 0) = NaN
      \<and> hf (racingWeather 80 0 0) = NaN)"
proof -
  have a: "js_eq (Fin 1.032903032) (vaporPressureInHg (racingWeather 80 100 1.032903032))"
    by (simp add: racingWeather_fields pd_poly_def)
  have b: "js_eq (Fin (- 0.126149)) (vaporPressureInHg (racingWeather 0 100 (- 0.126149)))"
    by (simp add: racingWeather_fields pd_poly_def)
  have c: "js_eq (Fin 0) (vaporPressureInHg (racingWeather 80 0 0))"
    by (simp add: racingWeather_fields pd_poly_def)
  from pressure_equals_vapor_pressure [OF triple_fields(3) a]
  have 1: "humidityGrains (racingWeather 80 100 1.032903032) = PInf
      \<and> hf (racingWeather 80 100 1.032903032) = PInf"
    by simp
  from pressure_equals_vapor_pressure [OF triple_fields(3) b]
  have 2: "humidityGrains (racingWeather 0 100 (- 0.126149)) = NInf
      \<and> hf (racingWeather 0 100 (- 0.126149)) = NInf"
    by simp
  from pressure_equals_vapor_pressure [OF triple_fields(3) c]
  have 3: "humidityGrains (racingWeather 80 0 0) = NaN \<and> hf (racingWeather 80 0 0) = NaN"
    by simp
  from a b c 1 2 3 show ?thesis by (simp add: triple_fields)
qed

section \<open>Degenerate conditions\<close>









end
